theory Spec2Isabelle
  imports Main "HOL-Library.Sublist"
begin

section \<open>Go runtime and standard-library functions used by the handlers\<close>

text \<open>
  Go strings are byte sequences; they are modelled as \<open>string\<close> (lists of 8-bit characters).
  A Go function that can panic returns an \<open>outcome\<close>: either its result or the run-time fault.
\<close>

datatype fault = IndexOutOfRange | NilDereference

datatype 'a outcome = Return 'a | Panic fault

text \<open>\<open>strings.Index\<close> followed by the cut around the separator: the text before the first
  occurrence of \<open>sep\<close> and the text after it, or \<open>None\<close> when \<open>sep\<close> does not occur.\<close>

fun Cut :: "string \<Rightarrow> string \<Rightarrow> (string \<times> string) option" where
  "Cut sep [] = (if sep = [] then Some ([], []) else None)"
| "Cut sep (c # cs) =
     (if prefix sep (c # cs) then Some ([], drop (length sep) (c # cs))
      else (case Cut sep cs of None \<Rightarrow> None | Some (b, a) \<Rightarrow> Some (c # b, a)))"

text \<open>\<open>strings.SplitN(s, sep, 2)\<close> for a non-empty separator: at most two parts.\<close>

definition SplitN2 :: "string \<Rightarrow> string \<Rightarrow> string list" where
  "SplitN2 s sep = (case Cut sep s of None \<Rightarrow> [s] | Some (b, a) \<Rightarrow> [b, a])"

lemma Cut_shorter: "Cut sep s = Some (b, a) \<Longrightarrow> sep \<noteq> [] \<Longrightarrow> length a < length s"
proof (induction s arbitrary: b a)
  case Nil
  then show ?case by simp
next
  case (Cons c cs)
  show ?case
  proof (cases "prefix sep (c # cs)")
    case True
    with Cons.prems show ?thesis by auto
  next
    case False
    with Cons.prems obtain b' where "Cut sep cs = Some (b', a)"
      by (auto split: option.splits)
    from Cons.IH [OF this Cons.prems(2)] show ?thesis by simp
  qed
qed

text \<open>\<open>strings.Split(s, sep)\<close> for a non-empty separator: cut at every occurrence, left to right.\<close>

function Split :: "string \<Rightarrow> string \<Rightarrow> string list" where
  "Split s sep =
     (if sep = [] then [s]
      else (case Cut sep s of None \<Rightarrow> [s] | Some (b, a) \<Rightarrow> b # Split a sep))"
  by pat_completeness auto
termination
  by (relation "measure (\<lambda>(s, sep). length s)") (auto dest: Cut_shorter)

declare Split.simps [simp del]

subsection \<open>encoding/base64\<close>

definition encodeStd :: string where
  "encodeStd = ''ABCDEFGHIJKLMNOPQRSTUVWXYZabcdefghijklmnopqrstuvwxyz0123456789+/''"

definition encodeURL :: string where
  "encodeURL = ''ABCDEFGHIJKLMNOPQRSTUVWXYZabcdefghijklmnopqrstuvwxyz0123456789-_''"

text \<open>The decode map of an alphabet: the position of a character, \<open>None\<close> for the 0xFF entry.\<close>

fun decodeMap :: "string \<Rightarrow> char \<Rightarrow> nat option" where
  "decodeMap [] c = None"
| "decodeMap (x # xs) c = (if c = x then Some 0 else map_option Suc (decodeMap xs c))"

definition byte :: "nat \<Rightarrow> char" where
  "byte n = char_of n"

text \<open>
  The decoding loop of \<open>Encoding.Decode\<close> for a padded, non-strict encoding, on input from
  which CR and LF have been removed (the decoder skips them wherever they occur). The result
  is the bytes written before decoding stopped and whether decoding succeeded: on corrupt
  input Go returns the bytes decoded so far together with the error.
\<close>

fun decodeQuanta :: "string \<Rightarrow> string \<Rightarrow> string \<times> bool" where
  "decodeQuanta al (a # b # c # d # rest) =
     (case (decodeMap al a, decodeMap al b) of
        (Some va, Some vb) \<Rightarrow>
          (case decodeMap al c of
             Some vc \<Rightarrow>
               (case decodeMap al d of
                  Some vd \<Rightarrow>
                    (let r = decodeQuanta al rest in
                     (byte (va * 4 + vb div 16) # byte ((vb mod 16) * 16 + vc div 4)
                        # byte ((vc mod 4) * 64 + vd) # fst r, snd r))
                | None \<Rightarrow>
                    (if d = CHR ''=''
                     then ([byte (va * 4 + vb div 16), byte ((vb mod 16) * 16 + vc div 4)],
                           rest = [])
                     else ([], False)))
           | None \<Rightarrow>
               (if c = CHR ''='' \<and> d = CHR ''=''
                then ([byte (va * 4 + vb div 16)], rest = [])
                else ([], False)))
      | _ \<Rightarrow> ([], False))"
| "decodeQuanta al [] = ([], True)"
| "decodeQuanta al _ = ([], False)"

definition isNewline :: "char \<Rightarrow> bool" where
  "isNewline c = (c = CHR 0x0A \<or> c = CHR 0x0D)"

text \<open>\<open>Encoding.DecodeString\<close>: the decoded bytes and \<open>True\<close>, or the bytes decoded before the
  corrupt position and \<open>False\<close> (a \<open>CorruptInputError\<close>).\<close>

definition DecodeString :: "string \<Rightarrow> string \<Rightarrow> string \<times> bool" where
  "DecodeString al s = decodeQuanta al (filter (\<lambda>c. \<not> isNewline c) s)"

text \<open>An alphabet for the proofs: 64 distinct characters, none of them the padding character.\<close>

definition alphabet :: "string \<Rightarrow> bool" where
  "alphabet al = (length al = 64 \<and> distinct al \<and> CHR ''='' \<notin> set al)"

text \<open>The shape of a padded encoding: characters of the alphabet followed by at most two
  padding characters, four characters for each quantum.\<close>

definition shape :: "string \<Rightarrow> string \<Rightarrow> string \<Rightarrow> nat \<Rightarrow> bool" where
  "shape al s bd n =
     (s = bd @ replicate n (CHR ''='') \<and> set bd \<subseteq> set al \<and> n < 3 \<and> (length bd + n) mod 4 = 0)"

section \<open>Errors and request data\<close>

text \<open>
  Flags of a \<open>jwt.ValidationError\<close> (the library combines them in a bit mask), and the error
  values the code can see: those it creates itself, the validation error of the token
  library, \<open>rest.ErrNotInCluster\<close>, the field errors of the validation library (the names of
  the fields that failed), the two errors of \<open>strconv\<close>, and \<open>ErrExternal\<close> with the message of
  an error produced by a collaborator (directory service, JSON encoder, file system).
\<close>

datatype flag = Malformed | Unverifiable | SignatureInvalid | Expired | IssuedAtInvalid | NotValidYet

datatype error =
    InvalidAuth
  | InvalidAuthorizationHeader string
  | ValidationError "flag set"
  | ErrNotInCluster
  | FieldErrors "string list"
  | ErrSyntax
  | ErrRange
  | ErrExternal string

text \<open>\<open>types.Auth\<close>: the credential pair of a request.\<close>

record Auth =
  Username :: string
  Password :: string

text \<open>The parts of an \<open>http.Request\<close> the handlers read. \<open>Authorization\<close> is the value of
  \<open>r.Header.Get("Authorization")\<close>, the empty string when the header is absent.\<close>

record Request =
  Authorization :: string
  Host :: string
  Body :: string

section \<open>Credential extraction\<close>

text \<open>\<open>basicAuth\<close>: the first component is the error, the second the pointer to the
  credentials (\<open>None\<close> is nil). Indexing \<open>pair[1]\<close> panics when the split has one element.\<close>

definition basicAuth :: "Request \<Rightarrow> (error option \<times> Auth option) outcome" where
  "basicAuth r =
     (let auth = SplitN2 (Authorization r) '' '' in
      if length auth \<noteq> 2 \<or> auth ! 0 \<noteq> ''Basic'' then Return (Some InvalidAuth, None)
      else
        (let payload = fst (DecodeString encodeStd (auth ! 1));
             pair = SplitN2 payload '':'' in
         if length pair < 2 then Panic IndexOutOfRange
         else Return (None, Some \<lparr>Username = pair ! 0, Password = pair ! 1\<rparr>)))"

section \<open>Bearer extraction\<close>

text \<open>The first lines of \<open>CurrentJWT\<close>: the check of the header and the token taken from it.
  \<open>Split\<close> on the prefix yields at least two parts when the prefix is present; the index is
  guarded all the same.\<close>

definition bearerPrefix :: string where
  "bearerPrefix = ''Bearer ''"

definition bearerToken :: "string \<Rightarrow> (error + string) outcome" where
  "bearerToken bearer =
     (if \<not> prefix bearerPrefix bearer \<or> length bearer < 8
      then Return (Inl (InvalidAuthorizationHeader bearer))
      else
        (let splitToken = Split bearer bearerPrefix in
         if length splitToken < 2 then Panic IndexOutOfRange
         else Return (Inr (splitToken ! 1))))"

section \<open>The response writer\<close>

text \<open>
  An \<open>http.ResponseWriter\<close>: the header map the handler edits, the status line and the header
  snapshot taken when the header is written, and the body. \<open>WriteHeader\<close> takes the snapshot
  once; later calls are ignored, and later changes of the header map are not sent. A \<open>Write\<close>
  before any \<open>WriteHeader\<close> writes status 200 first, and so does the server when the handler
  returns without writing anything (\<open>finalStatus\<close>).
\<close>

record Response =
  handlerHeader :: "string \<rightharpoonup> string"
  wroteHeader :: bool
  status :: nat
  sentHeader :: "string \<rightharpoonup> string"
  body :: string

definition emptyResponse :: Response where
  "emptyResponse =
     \<lparr>handlerHeader = Map.empty, wroteHeader = False, status = 0, sentHeader = Map.empty, body = []\<rparr>"

definition WriteHeader :: "nat \<Rightarrow> Response \<Rightarrow> Response" where
  "WriteHeader code w =
     (if wroteHeader w then w
      else w\<lparr>wroteHeader := True, status := code, sentHeader := handlerHeader w\<rparr>)"

definition Write :: "string \<Rightarrow> Response \<Rightarrow> Response" where
  "Write p w =
     (let w' = (if wroteHeader w then w else WriteHeader 200 w) in w'\<lparr>body := body w' @ p\<rparr>)"

definition HeaderSet :: "string \<Rightarrow> string \<Rightarrow> Response \<Rightarrow> Response" where
  "HeaderSet k v w = w\<lparr>handlerHeader := (handlerHeader w)(k \<mapsto> v)\<rparr>"

definition finalStatus :: "Response \<Rightarrow> nat" where
  "finalStatus w = (if wroteHeader w then status w else 200)"

section \<open>Configuration and claims\<close>

text \<open>Modelled from the spec: the declarations of package \<open>types\<close> are not among the sources;
  the records list the fields the code assigns, in the order it assigns them.\<close>

record LdapConfig =
  UserBase :: string
  GroupBase :: string
  AdminUserBase :: string
  AdminGroupBase :: string
  LdapHost :: string
  Port :: int
  UseSSL :: bool
  StartTLS :: bool
  SkipTLSVerification :: bool
  BindDN :: string
  BindPassword :: string
  UserFilter :: string
  GroupFilter :: string
  Attributes :: "string list"

record TlsConfig =
  InsecureSkipVerify :: bool
  RootCAs :: string

record Config =
  Ldap :: LdapConfig
  KubeCa :: string
  KubeCaText :: string
  KubeToken :: string
  ApiServerURL :: string
  ApiServerTLSConfig :: TlsConfig
  TokenLifeTime :: string

text \<open>Modelled from the spec: \<open>types.AuthJWTClaims\<close> is not among the sources. Its first three
  fields are the grants, the user name and the admin flag, in the order \<open>generateUserToken\<close>
  fills them; the others are the fields of the embedded \<open>jwt.StandardClaims\<close>. The type of a
  grant is left open.\<close>

record 'g AuthJWTClaims =
  Auths :: "'g list"
  User :: string
  AdminAccess :: bool
  Audience :: string
  ExpiresAt :: int
  Id :: string
  IssuedAt :: int
  Issuer :: string
  NotBefore :: int
  Subject :: string

text \<open>Modelled from the spec: the access-config document of package \<open>types\<close>
  (\<open>KubeConfig\<close> and its parts), with the fields \<open>GenerateConfig\<close> assigns.\<close>

record KubeConfigClusterData =
  Server :: string
  CertificateData :: string

record KubeConfigCluster =
  ClusterName :: string
  Cluster :: KubeConfigClusterData

record KubeConfigContextData =
  ContextCluster :: string
  ContextUser :: string

record KubeConfigContext =
  ContextName :: string
  Context :: KubeConfigContextData

record KubeConfigUserToken =
  Token :: string

record KubeConfigUser =
  UserName :: string
  UserData :: KubeConfigUserToken

record KubeConfig =
  ApiVersion :: string
  Kind :: string
  Clusters :: "KubeConfigCluster list"
  CurrentContext :: string
  Contexts :: "KubeConfigContext list"
  Users :: "KubeConfigUser list"

section \<open>Collaborators\<close>

text \<open>
  The functions the handlers call outside the given sources: the directory service
  (\<open>ldap.AuthenticateUser\<close>, \<open>ldap.GetUserGroups\<close>, \<open>ldap.HasAdminAccess\<close>), the mapper
  \<open>GetUserNamespaces\<close>, \<open>time.ParseDuration\<close> (the duration in nanoseconds and the error),
  HMAC-SHA512 (key first, then message), the JSON encoder and decoder of the claims, the JSON
  decoder of a token header (the \<open>alg\<close> entry when it is a string), the verification functions
  of the signing methods other than HS512 registered with the library (signing string,
  signature segment, key), and \<open>yaml.Marshal\<close>.
\<close>

record ('dn, 'g) collaborators =
  AuthenticateUser :: "string \<Rightarrow> string \<Rightarrow> error + 'dn"
  GetUserGroups :: "'dn \<Rightarrow> error + string list"
  HasAdminAccess :: "'dn \<Rightarrow> bool"
  GetUserNamespaces :: "string list \<Rightarrow> 'g list"
  ParseDuration :: "string \<Rightarrow> int \<times> error option"
  hmacSHA512 :: "string \<Rightarrow> string \<Rightarrow> string"
  marshalClaims :: "'g AuthJWTClaims \<Rightarrow> error + string"
  unmarshalClaims :: "string \<Rightarrow> 'g AuthJWTClaims option"
  unmarshalHeader :: "string \<Rightarrow> string option option"
  otherMethods :: "string \<Rightarrow> (string \<Rightarrow> string \<Rightarrow> string \<Rightarrow> bool) option"
  yamlMarshal :: "KubeConfig \<Rightarrow> string \<times> error option"

section \<open>The token library\<close>

text \<open>\<open>Encoding.EncodeToString\<close> of a padded encoding: three bytes give four characters, a
  rest of one or two bytes is padded with \<open>=\<close>.\<close>

fun EncodeToString :: "string \<Rightarrow> string \<Rightarrow> string" where
  "EncodeToString al (a # b # c # rest) =
     al ! (of_char a div 4) # al ! ((of_char a mod 4) * 16 + of_char b div 16)
       # al ! ((of_char b mod 16) * 4 + of_char c div 64) # al ! (of_char c mod 64)
       # EncodeToString al rest"
| "EncodeToString al [a, b] =
     [al ! (of_char a div 4), al ! ((of_char a mod 4) * 16 + of_char b div 16),
      al ! ((of_char b mod 16) * 4), CHR ''='']"
| "EncodeToString al [a] =
     [al ! (of_char a div 4), al ! ((of_char a mod 4) * 16), CHR ''='', CHR ''='']"
| "EncodeToString al [] = []"

text \<open>\<open>strings.TrimRight(s, "=")\<close>.\<close>

definition TrimRightPad :: "string \<Rightarrow> string" where
  "TrimRightPad s = rev (dropWhile (\<lambda>c. c = CHR ''='') (rev s))"

text \<open>\<open>jwt.EncodeSegment\<close> and \<open>jwt.DecodeSegment\<close>: URL-safe base64 with the padding
  stripped, and put back before decoding.\<close>

definition EncodeSegment :: "string \<Rightarrow> string" where
  "EncodeSegment seg = TrimRightPad (EncodeToString encodeURL seg)"

definition DecodeSegment :: "string \<Rightarrow> string \<times> bool" where
  "DecodeSegment seg =
     (let l = length seg mod 4 in
      DecodeString encodeURL (if l > 0 then seg @ replicate (4 - l) (CHR ''='') else seg))"

text \<open>The JSON encoding of the header of a token signed with HS512 (\<open>json.Marshal\<close> writes
  the keys of a map in sorted order).\<close>

definition headerJSON :: string where
  "headerJSON = [CHR ''{'', CHR 0x22] @ ''alg'' @ [CHR 0x22, CHR '':'', CHR 0x22] @ ''HS512''
     @ [CHR 0x22, CHR '','', CHR 0x22] @ ''typ'' @ [CHR 0x22, CHR '':'', CHR 0x22] @ ''JWT''
     @ [CHR 0x22, CHR ''}'']"

text \<open>\<open>Token.SignedString\<close> for the method HS512 and a byte-slice key: the signing string is
  the encoded header and the encoded claims joined by a dot; the signature segment is the
  encoded HMAC of the signing string. It fails only when the claims cannot be encoded.\<close>

definition SignedString ::
  "('dn, 'g) collaborators \<Rightarrow> 'g AuthJWTClaims \<Rightarrow> string \<Rightarrow> string \<times> error option" where
  "SignedString W claims key =
     (case marshalClaims W claims of
        Inl e \<Rightarrow> ([], Some e)
      | Inr js \<Rightarrow>
          (let sstr = EncodeSegment headerJSON @ ''.'' @ EncodeSegment js;
               sig = EncodeSegment (hmacSHA512 W key sstr)
           in (sstr @ ''.'' @ sig, None)))"

text \<open>\<open>time.Time.Unix\<close>: instants are nanoseconds since the epoch.\<close>

definition Unix :: "int \<Rightarrow> int" where
  "Unix t = t div 1000000000"

text \<open>\<open>StandardClaims.Valid\<close> at the second \<open>now\<close>: a field that is 0 is not checked.\<close>

definition claimsValid :: "int \<Rightarrow> 'g AuthJWTClaims \<Rightarrow> flag set" where
  "claimsValid now c =
     (if ExpiresAt c = 0 \<or> now \<le> ExpiresAt c then {} else {Expired})
     \<union> (if IssuedAt c = 0 \<or> IssuedAt c \<le> now then {} else {IssuedAtInvalid})
     \<union> (if NotBefore c = 0 \<or> NotBefore c \<le> now then {} else {NotValidYet})"

text \<open>\<open>SigningMethodHMAC.Verify\<close>: \<open>True\<close> is the nil error.\<close>

definition HMACVerify ::
  "(string \<Rightarrow> string \<Rightarrow> string) \<Rightarrow> string \<Rightarrow> string \<Rightarrow> string \<Rightarrow> bool" where
  "HMACVerify mac signingString signature key =
     (case DecodeSegment signature of
        (sig, ok) \<Rightarrow> ok \<and> sig = mac key signingString)"

definition GetSigningMethod ::
  "('dn, 'g) collaborators \<Rightarrow> string \<Rightarrow> (string \<Rightarrow> string \<Rightarrow> string \<Rightarrow> bool) option" where
  "GetSigningMethod W alg =
     (if alg = ''HS512'' then Some (HMACVerify (hmacSHA512 W)) else otherMethods W alg)"

record 'g Token =
  Claims :: "'g AuthJWTClaims option"
  Valid :: bool

text \<open>\<open>jwt.ParseWithClaims\<close> with the key function of the handlers, which returns the signing
  key for every token; \<open>now\<close> is the instant of the call. The result is the token pointer and
  the error. The pointer is nil when the text does not have three segments. \<open>Claims\<close> is
  \<open>None\<close> as long as the claims have not been decoded; the claims are validated first and
  the signature is verified whatever the outcome, each adding its flag to the error.\<close>

definition ParseWithClaims ::
  "('dn, 'g) collaborators \<Rightarrow> string \<Rightarrow> int \<Rightarrow> string \<Rightarrow> 'g Token option \<times> error option" where
  "ParseWithClaims W key now tokenString =
     (let parts = Split tokenString ''.'';
          malformed = (Some \<lparr>Claims = None, Valid = False\<rparr>, Some (ValidationError {Malformed}));
          unverifiable = (\<lambda>c. (Some \<lparr>Claims = Some c, Valid = False\<rparr>,
                                 Some (ValidationError {Unverifiable})))
      in
      if length parts \<noteq> 3 then (None, Some (ValidationError {Malformed}))
      else
        (case DecodeSegment (parts ! 0) of
           (headerBytes, False) \<Rightarrow> malformed
         | (headerBytes, True) \<Rightarrow>
             (case unmarshalHeader W headerBytes of
                None \<Rightarrow> malformed
              | Some alg \<Rightarrow>
                  (case DecodeSegment (parts ! 1) of
                     (claimBytes, False) \<Rightarrow> malformed
                   | (claimBytes, True) \<Rightarrow>
                       (case unmarshalClaims W claimBytes of
                          None \<Rightarrow> malformed
                        | Some c \<Rightarrow>
                            (case alg of
                               None \<Rightarrow> unverifiable c
                             | Some name \<Rightarrow>
                                 (case GetSigningMethod W name of
                                    None \<Rightarrow> unverifiable c
                                  | Some verify \<Rightarrow>
                                      (let errs = claimsValid (Unix now) c
                                             \<union> (if verify (parts ! 0 @ ''.'' @ parts ! 1) (parts ! 2) key
                                                then {} else {SignatureInvalid})
                                       in
                                       if errs = {}
                                       then (Some \<lparr>Claims = Some c, Valid = True\<rparr>, None)
                                       else (Some \<lparr>Claims = Some c, Valid = False\<rparr>,
                                             Some (ValidationError errs))))))))))"

section \<open>Issuing and checking tokens\<close>

text \<open>The claims \<open>generateUserToken\<close> assembles: \<open>cfg\<close> is \<open>utils.Config\<close> and \<open>now\<close> the
  instant \<open>time.Now()\<close> returns. The error of \<open>ParseDuration\<close> is not read (the source
  overwrites it with the error of \<open>SignedString\<close>).\<close>

definition userClaims ::
  "('dn, 'g) collaborators \<Rightarrow> Config \<Rightarrow> int \<Rightarrow> string list \<Rightarrow> string \<Rightarrow> bool
     \<Rightarrow> 'g AuthJWTClaims" where
  "userClaims W cfg now groups username hasAdminAccess =
     (let auths = GetUserNamespaces W groups;
          duration = fst (ParseDuration W (TokenLifeTime cfg));
          time = now + duration
      in \<lparr>Auths = auths, User = username, AdminAccess = hasAdminAccess,
          Audience = [], ExpiresAt = Unix time, Id = [], IssuedAt = 0,
          Issuer = ''Kubi Server'', NotBefore = 0, Subject = []\<rparr>)"

text \<open>\<open>generateUserToken\<close>: the claims above, signed with the signing key \<open>key\<close>.\<close>

definition generateUserToken ::
  "('dn, 'g) collaborators \<Rightarrow> Config \<Rightarrow> string \<Rightarrow> int \<Rightarrow> string list \<Rightarrow> string \<Rightarrow> bool
     \<Rightarrow> string \<times> error option" where
  "generateUserToken W cfg key now groups username hasAdminAccess =
     SignedString W (userClaims W cfg now groups username hasAdminAccess) key"

text \<open>\<open>baseGenerateToken\<close>: the token pointer and the error.\<close>

definition baseGenerateToken ::
  "('dn, 'g) collaborators \<Rightarrow> Config \<Rightarrow> string \<Rightarrow> int \<Rightarrow> Auth \<Rightarrow> string option \<times> error option" where
  "baseGenerateToken W cfg key now auth =
     (case AuthenticateUser W (Username auth) (Password auth) of
        Inl err \<Rightarrow> (None, Some err)
      | Inr userDN \<Rightarrow>
          (case GetUserGroups W userDN of
             Inl err \<Rightarrow> (None, Some err)
           | Inr groups \<Rightarrow>
               (case generateUserToken W cfg key now groups (Username auth) (HasAdminAccess W userDN) of
                  (token, Some err) \<Rightarrow> (None, Some err)
                | (token, None) \<Rightarrow> (Some token, None))))"

text \<open>\<open>CurrentJWT\<close>: the claims pointer and the error. The last branch of the source calls
  \<open>err.Error()\<close> on the nil error.\<close>

definition CurrentJWT ::
  "('dn, 'g) collaborators \<Rightarrow> string \<Rightarrow> int \<Rightarrow> Request
     \<Rightarrow> ('g AuthJWTClaims option \<times> error option) outcome" where
  "CurrentJWT W key now r =
     (case bearerToken (Authorization r) of
        Panic f \<Rightarrow> Panic f
      | Return (Inl err) \<Rightarrow> Return (None, Some err)
      | Return (Inr bearer) \<Rightarrow>
          (case ParseWithClaims W key now bearer of
             (token, Some err) \<Rightarrow> Return (None, Some err)
           | (None, None) \<Rightarrow> Panic NilDereference
           | (Some token, None) \<Rightarrow>
               (case Claims token of
                  Some claims \<Rightarrow>
                    (if Valid token then Return (Some claims, None) else Panic NilDereference)
                | None \<Rightarrow> Panic NilDereference)))"

section \<open>The HTTP handlers\<close>

text \<open>A handler returns the state of the response writer when it stopped and the fault, if it
  stopped by a panic.\<close>

definition invalidCredentials :: string where
  "invalidCredentials = ''Basic Auth: Invalid credentials''"

definition GenerateJWT ::
  "('dn, 'g) collaborators \<Rightarrow> Config \<Rightarrow> string \<Rightarrow> int \<Rightarrow> Request \<Rightarrow> Response
     \<Rightarrow> Response \<times> fault option" where
  "GenerateJWT W cfg key now r w =
     (case basicAuth r of
        Panic f \<Rightarrow> (w, Some f)
      | Return (err, auth) \<Rightarrow>
          (let w1 = (if err \<noteq> None then Write invalidCredentials (WriteHeader 401 w) else w) in
           case auth of
             None \<Rightarrow> (w1, Some NilDereference)
           | Some a \<Rightarrow>
               (case baseGenerateToken W cfg key now a of
                  (Some token, err') \<Rightarrow> (Write token (WriteHeader 200 w1), None)
                | (None, err') \<Rightarrow> (w1, None))))"

text \<open>The document \<open>GenerateConfig\<close> builds for a request, the credentials and a token.\<close>

definition kubeConfig :: "Config \<Rightarrow> Request \<Rightarrow> Auth \<Rightarrow> string \<Rightarrow> KubeConfig" where
  "kubeConfig cfg r auth token =
     \<lparr>ApiVersion = ''v1'',
      Kind = ''Config'',
      Clusters = [\<lparr>ClusterName = ''kubernetes'',
                   Cluster = \<lparr>Server = ''https://'' @ Host r, CertificateData = KubeCa cfg\<rparr>\<rparr>],
      CurrentContext = ''kubernetes'' @ ''-'' @ Username auth,
      Contexts = [\<lparr>ContextName = ''kubernetes'' @ ''-'' @ Username auth,
                   Context = \<lparr>ContextCluster = ''kubernetes'', ContextUser = Username auth\<rparr>\<rparr>],
      Users = [\<lparr>UserName = Username auth, UserData = \<lparr>Token = token\<rparr>\<rparr>]\<rparr>"

definition GenerateConfig ::
  "('dn, 'g) collaborators \<Rightarrow> Config \<Rightarrow> string \<Rightarrow> int \<Rightarrow> Request \<Rightarrow> Response
     \<Rightarrow> Response \<times> fault option" where
  "GenerateConfig W cfg key now r w =
     (case basicAuth r of
        Panic f \<Rightarrow> (w, Some f)
      | Return (err, auth) \<Rightarrow>
          (let w1 = (if err \<noteq> None then Write invalidCredentials (WriteHeader 401 w) else w) in
           case auth of
             None \<Rightarrow> (w1, Some NilDereference)
           | Some a \<Rightarrow>
               (case baseGenerateToken W cfg key now a of
                  (token, Some err') \<Rightarrow> (WriteHeader 401 w1, None)
                | (None, None) \<Rightarrow> (w1, Some NilDereference)
                | (Some token, None) \<Rightarrow>
                    (let yml = fst (yamlMarshal W (kubeConfig cfg r a token));
                         w2 = WriteHeader 201 w1;
                         w3 = HeaderSet ''Content-Type'' ''text/x-yaml; charset=utf-8'' w2
                     in (Write yml w3, None)))))"

text \<open>\<open>VerifyJWT\<close> reads \<open>token.Claims\<close> whatever the error is; the token pointer is nil when
  the body does not have three segments.\<close>

definition VerifyJWT ::
  "('dn, 'g) collaborators \<Rightarrow> string \<Rightarrow> int \<Rightarrow> Request \<Rightarrow> Response \<Rightarrow> Response \<times> fault option" where
  "VerifyJWT W key now r w =
     (case ParseWithClaims W key now (Body r) of
        (None, err) \<Rightarrow> (w, Some NilDereference)
      | (Some token, err) \<Rightarrow> (WriteHeader 200 w, None))"

section \<open>Building the configuration\<close>

text \<open>\<open>strconv.Atoi\<close> on a 64-bit platform: an optional sign and decimal digits, in the range
  of \<open>int64\<close>.\<close>

fun digitsValue :: "nat \<Rightarrow> string \<Rightarrow> nat option" where
  "digitsValue n [] = Some n"
| "digitsValue n (c # cs) =
     (if (48::nat) \<le> of_char c \<and> of_char c \<le> (57::nat)
      then digitsValue (n * 10 + (of_char c - 48)) cs else None)"

definition Atoi :: "string \<Rightarrow> error + int" where
  "Atoi s =
     (let neg = (s \<noteq> [] \<and> hd s = CHR ''-'');
          ds = (if s \<noteq> [] \<and> (hd s = CHR ''-'' \<or> hd s = CHR ''+'') then tl s else s)
      in if ds = [] then Inl ErrSyntax
         else (case digitsValue 0 ds of
                 None \<Rightarrow> Inl ErrSyntax
               | Some n \<Rightarrow>
                   (if neg then (if n > 2 ^ 63 then Inl ErrRange else Inr (- int n))
                    else (if n > 2 ^ 63 - 1 then Inl ErrRange else Inr (int n)))))"

definition ParseBool :: "string \<Rightarrow> error + bool" where
  "ParseBool str =
     (if str \<in> set [''1'', ''t'', ''T'', ''TRUE'', ''true'', ''True''] then Inr True
      else if str \<in> set [''0'', ''f'', ''F'', ''FALSE'', ''false'', ''False''] then Inr False
      else Inl ErrSyntax)"

text \<open>\<open>net.JoinHostPort\<close>.\<close>

definition JoinHostPort :: "string \<Rightarrow> string \<Rightarrow> string" where
  "JoinHostPort host port =
     (if CHR '':'' \<in> set host \<or> CHR ''%'' \<in> set host then ''['' @ host @ '']:'' @ port
      else host @ '':'' @ port)"

text \<open>
  What \<open>MakeConfig\<close> reads from its surroundings: the environment variables, the two files
  (\<open>TokenFile\<close>, \<open>TlsCaFile\<close>), whether \<open>AppendCertsFromPEM\<close> accepts a certificate text, the
  string checks \<open>is.URL\<close> and \<open>is.Base64\<close>, and the number of runes of a string.
\<close>

record system =
  environ :: "string \<rightharpoonup> string"
  tokenFile :: "error + string"
  tlsCaFile :: "error + string"
  appendCertsOk :: "string \<Rightarrow> bool"
  isURL :: "string \<Rightarrow> bool"
  isBase64 :: "string \<Rightarrow> bool"
  runeCount :: "string \<Rightarrow> nat"

definition Getenv :: "system \<Rightarrow> string \<Rightarrow> string" where
  "Getenv S k = (case environ S k of None \<Rightarrow> [] | Some v \<Rightarrow> v)"

text \<open>Modelled from the spec: \<open>getEnv\<close> is a helper of package \<open>utils\<close> that is not among the
  sources; it returns the value of a variable that is set and the fallback otherwise.\<close>

definition getEnv :: "system \<Rightarrow> string \<Rightarrow> string \<Rightarrow> string" where
  "getEnv S k fallback = (case environ S k of None \<Rightarrow> fallback | Some v \<Rightarrow> v)"

text \<open>The rules of the validation library: \<open>Required\<close> rejects the empty string, the other
  rules accept it. A field fails when one of its rules does; \<open>ValidateStruct\<close> returns the
  failed fields, or nil when there is none.\<close>

datatype rule = Required | IsURL | IsBase64 | Length nat nat

fun ruleOk :: "system \<Rightarrow> string \<Rightarrow> rule \<Rightarrow> bool" where
  "ruleOk S v Required = (v \<noteq> [])"
| "ruleOk S v IsURL = (v = [] \<or> isURL S v)"
| "ruleOk S v IsBase64 = (v = [] \<or> isBase64 S v)"
| "ruleOk S v (Length lo hi) = (v = [] \<or> (lo \<le> runeCount S v \<and> runeCount S v \<le> hi))"

definition ValidateStruct :: "system \<Rightarrow> (string \<times> string \<times> rule list) list \<Rightarrow> error option" where
  "ValidateStruct S fs =
     (let failed = map fst (filter (\<lambda>(name, v, rules). \<not> list_all (ruleOk S v) rules) fs)
      in if failed = [] then None else Some (FieldErrors failed))"

text \<open>The result of \<open>MakeConfig\<close>: the configuration pointer and the error, or the end of the
  process. Modelled from the spec: \<open>check\<close> and \<open>checkf\<close> are helpers of package \<open>utils\<close> that
  are not among the sources; given an error they stop the program, as \<open>log.Fatalf\<close> does.\<close>

datatype startup = Returned "Config option" "error option" | Exited

definition validateConfig :: "system \<Rightarrow> Config \<Rightarrow> error option" where
  "validateConfig S config =
     ValidateStruct S
       [(''ApiServerURL'', ApiServerURL config, [Required, IsURL]),
        (''KubeToken'', KubeToken config, [Required]),
        (''KubeCa'', KubeCa config, [Required, IsBase64]),
        (''ApiServerURL'', ApiServerURL config, [Required, IsURL])]"

definition validateLdap :: "system \<Rightarrow> LdapConfig \<Rightarrow> error option" where
  "validateLdap S ldapConfig =
     ValidateStruct S
       [(''UserBase'', UserBase ldapConfig, [Required, Length 2 200]),
        (''GroupBase'', GroupBase ldapConfig, [Required, Length 2 200]),
        (''Host'', LdapHost ldapConfig, [Required, IsURL]),
        (''BindDN'', BindDN ldapConfig, [Required, Length 2 200]),
        (''BindPassword'', BindPassword ldapConfig, [Required, Length 2 200])]"

text \<open>The first part of \<open>MakeConfig\<close>, up to the construction of \<open>config\<close>: either the
  function has already returned or stopped the program, or the two structures are built.\<close>

definition loadConfig :: "system \<Rightarrow> startup + Config \<times> LdapConfig" where
  "loadConfig S =
     (let host = Getenv S ''KUBERNETES_SERVICE_HOST'';
          port = Getenv S ''KUBERNETES_SERVICE_PORT''
      in
      if length host = 0 \<or> length port = 0 then Inl (Returned None (Some ErrNotInCluster))
      else
        (case (tokenFile S, tlsCaFile S) of
           (Inr kubeToken, Inr kubeCA) \<Rightarrow>
             (if \<not> appendCertsOk S kubeCA then Inl Exited
              else
                (case (Atoi (getEnv S ''LDAP_PORT'' ''389''),
                       ParseBool (getEnv S ''LDAP_USE_SSL'' ''false''),
                       ParseBool (getEnv S ''LDAP_SKIP_TLS_VERIFICATION'' ''true''),
                       ParseBool (getEnv S ''LDAP_START_TLS'' ''false'')) of
                   (Inr ldapPort0, Inr useSSL0, Inr skipTLSVerification0, Inr startTLS) \<Rightarrow>
                     (let envPort = (if length (Getenv S ''LDAP_PORT'') > 0
                                     then Atoi (Getenv S ''LDAP_PORT'') else Inr ldapPort0)
                      in
                      case envPort of
                        Inl e \<Rightarrow> Inl Exited
                      | Inr ldapPort \<Rightarrow>
                          (let noSkip = (length (Getenv S ''LDAP_PORT'') > 0
                                         \<and> Getenv S ''LDAP_SKIP_TLS'' = ''false'');
                               skipTLSVerification =
                                 (if noSkip \<and> (ldapPort = 389 \<or> ldapPort = 636) then False
                                  else skipTLSVerification0);
                               useSSL = (if noSkip \<and> ldapPort = 636 then True else useSSL0);
                               ldapConfig =
                                 \<lparr>UserBase = Getenv S ''LDAP_USERBASE'',
                                  GroupBase = Getenv S ''LDAP_GROUPBASE'',
                                  AdminUserBase = getEnv S ''LDAP_ADMIN_USERBASE'' [],
                                  AdminGroupBase = getEnv S ''LDAP_ADMIN_GROUPBASE'' [],
                                  LdapHost = Getenv S ''LDAP_SERVER'',
                                  Port = ldapPort,
                                  UseSSL = useSSL,
                                  StartTLS = startTLS,
                                  SkipTLSVerification = skipTLSVerification,
                                  BindDN = Getenv S ''LDAP_BINDDN'',
                                  BindPassword = Getenv S ''LDAP_PASSWD'',
                                  UserFilter = getEnv S ''LDAP_USERFILTER'' ''(cn=%s)'',
                                  GroupFilter = ''(member=%s)'',
                                  Attributes = [''givenName'', ''sn'', ''mail'', ''uid'', ''cn'',
                                                ''userPrincipalName'']\<rparr>;
                               config =
                                 \<lparr>Ldap = ldapConfig,
                                  KubeCa = EncodeToString encodeStd kubeCA,
                                  KubeCaText = kubeCA,
                                  KubeToken = kubeToken,
                                  ApiServerURL = JoinHostPort host port,
                                  ApiServerTLSConfig = \<lparr>InsecureSkipVerify = False, RootCAs = kubeCA\<rparr>,
                                  TokenLifeTime = getEnv S ''TOKEN_LIFETIME'' ''4h''\<rparr>
                           in Inr (config, ldapConfig)))
                 | _ \<Rightarrow> Inl Exited))
         | _ \<Rightarrow> Inl Exited))"

text \<open>The rest of \<open>MakeConfig\<close>: the two validations and the returns that follow them.\<close>

definition MakeConfig :: "system \<Rightarrow> startup" where
  "MakeConfig S =
     (case loadConfig S of
        Inl stopped \<Rightarrow> stopped
      | Inr (config, ldapConfig) \<Rightarrow>
          (let err = validateConfig S config;
               errLdap = validateLdap S ldapConfig
           in if err \<noteq> None then Returned None err
              else if errLdap \<noteq> None then Returned None err
              else Returned (Some config) None))"

section \<open>Sample surroundings\<close>

text \<open>A cluster environment in which no directory variable is set: the core section of the
  configuration is valid, the directory section is not.\<close>

definition clusterOnly :: system where
  "clusterOnly =
     \<lparr>environ = [''KUBERNETES_SERVICE_HOST'' \<mapsto> ''10.0.0.1'', ''KUBERNETES_SERVICE_PORT'' \<mapsto> ''443''],
      tokenFile = Inr ''token'',
      tlsCaFile = Inr ''CA'',
      appendCertsOk = (\<lambda>pem. True),
      isURL = (\<lambda>s. True),
      isBase64 = (\<lambda>s. True),
      runeCount = length\<rparr>"

text \<open>A cluster environment with a complete directory section.\<close>

definition fullCluster :: system where
  "fullCluster =
     \<lparr>environ = [''KUBERNETES_SERVICE_HOST'' \<mapsto> ''10.0.0.1'', ''KUBERNETES_SERVICE_PORT'' \<mapsto> ''443'',
                 ''LDAP_USERBASE'' \<mapsto> ''ou=people'', ''LDAP_GROUPBASE'' \<mapsto> ''ou=groups'',
                 ''LDAP_SERVER'' \<mapsto> ''ldap.example.org'', ''LDAP_BINDDN'' \<mapsto> ''cn=admin'',
                 ''LDAP_PASSWD'' \<mapsto> ''password''],
      tokenFile = Inr ''token'',
      tlsCaFile = Inr ''CA'',
      appendCertsOk = (\<lambda>pem. True),
      isURL = (\<lambda>s. True),
      isBase64 = (\<lambda>s. True),
      runeCount = length\<rparr>"

text \<open>A configuration as \<open>MakeConfig\<close> builds it in \<open>fullCluster\<close>, for a given lifetime string.\<close>

definition sampleConfig :: "string \<Rightarrow> Config" where
  "sampleConfig lifetime =
     \<lparr>Ldap = \<lparr>UserBase = ''ou=people'', GroupBase = ''ou=groups'', AdminUserBase = [],
               AdminGroupBase = [], LdapHost = ''ldap.example.org'', Port = 389, UseSSL = False,
               StartTLS = False, SkipTLSVerification = True, BindDN = ''cn=admin'',
               BindPassword = ''password'', UserFilter = ''(cn=%s)'', GroupFilter = ''(member=%s)'',
               Attributes = [''givenName'', ''sn'', ''mail'', ''uid'', ''cn'', ''userPrincipalName'']\<rparr>,
      KubeCa = ''Q0E='', KubeCaText = ''CA'', KubeToken = ''token'',
      ApiServerURL = ''10.0.0.1:443'',
      ApiServerTLSConfig = \<lparr>InsecureSkipVerify = False, RootCAs = ''CA''\<rparr>,
      TokenLifeTime = lifetime\<rparr>"

text \<open>
  Sample collaborators. The directory knows the user \<open>alice\<close> with the password \<open>secret\<close>, a
  member of two groups and an administrator; the mapper grants her \<open>write\<close> on \<open>ns-dev\<close>.
  The duration parser knows the strings \<open>4h\<close> and \<open>2s\<close>. The JSON codec is a recording: it
  encodes and decodes the claims listed in \<open>recordedClaims\<close>. The MAC is a stand-in with
  the output length of HMAC-SHA512: the last 64 bytes of the key followed by the message, in
  reverse order, filled up with zero bytes.
\<close>

definition aliceClaims :: "int \<Rightarrow> (string \<times> string) AuthJWTClaims" where
  "aliceClaims exp =
     \<lparr>Auths = [(''ns-dev'', ''write'')], User = ''alice'', AdminAccess = True,
      Audience = [], ExpiresAt = exp, Id = [], IssuedAt = 0,
      Issuer = ''Kubi Server'', NotBefore = 0, Subject = []\<rparr>"

definition recordedClaims :: "((string \<times> string) AuthJWTClaims \<times> string) list" where
  \<open>recordedClaims =
     [(aliceClaims 1000014400,
       ''{"auths":[{"namespace":"ns-dev","role":"write"}],"user":"alice","adminAccess":true,"exp":1000014400,"iss":"Kubi Server"}''),
      (aliceClaims 1000000002,
       ''{"auths":[{"namespace":"ns-dev","role":"write"}],"user":"alice","adminAccess":true,"exp":1000000002,"iss":"Kubi Server"}''),
      (aliceClaims 1000000000,
       ''{"auths":[{"namespace":"ns-dev","role":"write"}],"user":"alice","adminAccess":true,"exp":1000000000,"iss":"Kubi Server"}'')]\<close>

definition sampleMac :: "string \<Rightarrow> string \<Rightarrow> string" where
  "sampleMac key msg = take 64 (rev (key @ msg) @ replicate 64 (CHR 0x00))"

definition sample :: "(string, string \<times> string) collaborators" where
  "sample =
     \<lparr>AuthenticateUser =
        (\<lambda>u p. if u = ''alice'' \<and> p = ''secret'' then Inr ''uid=alice,ou=people''
               else Inl (ErrExternal ''invalid credentials'')),
      GetUserGroups = (\<lambda>dn. Inr [''grp-ns-dev'', ''grp-admin'']),
      HasAdminAccess = (\<lambda>dn. True),
      GetUserNamespaces = (\<lambda>groups. [(''ns-dev'', ''write'')]),
      ParseDuration =
        (\<lambda>s. if s = ''4h'' then (14400000000000, None)
              else if s = ''2s'' then (2000000000, None)
              else (0, Some (ErrExternal ''time: invalid duration''))),
      hmacSHA512 = sampleMac,
      marshalClaims =
        (\<lambda>c. case map_of recordedClaims c of
                Some js \<Rightarrow> Inr js
              | None \<Rightarrow> Inl (ErrExternal ''json: not recorded'')),
      unmarshalClaims = (\<lambda>js. map_of (map (\<lambda>(c, js). (js, c)) recordedClaims) js),
      unmarshalHeader = (\<lambda>js. if js = headerJSON then Some (Some ''HS512'') else None),
      otherMethods = (\<lambda>alg. None),
      yamlMarshal = (\<lambda>k. (''apiVersion: '' @ ApiVersion k, None))\<rparr>"

text \<open>The instant 1000000000 seconds after the epoch, and a request with a given
  \<open>Authorization\<close> header.\<close>

definition sampleNow :: int where
  "sampleNow = 1000000000000000000"

definition request :: "string \<Rightarrow> Request" where
  "request authorization = \<lparr>Authorization = authorization, Host = ''host:6443'', Body = []\<rparr>"

section \<open>Facts about the extraction and the configuration\<close>

lemma basicAuth_alice_wrong:
  "basicAuth (request ''Basic YWxpY2U6d3Jvbmc='')
     = Return (None, Some \<lparr>Username = ''alice'', Password = ''wrong''\<rparr>)"
  by code_simp

lemma basicAuth_alice_secret:
  "basicAuth (request ''Basic YWxpY2U6c2VjcmV0'')
     = Return (None, Some \<lparr>Username = ''alice'', Password = ''secret''\<rparr>)"
  by code_simp

lemma basicAuth_wrong_scheme:
  "basicAuth (request ''Bearer abc'') = Return (Some InvalidAuth, None)"
  by (simp add: basicAuth_def SplitN2_def request_def)

lemma environ_update_other:
  "k \<noteq> ''TOKEN_LIFETIME''
     \<Longrightarrow> Getenv (S\<lparr>environ := (environ S)(''TOKEN_LIFETIME'' \<mapsto> l)\<rparr>) k = Getenv S k"
  "k \<noteq> ''TOKEN_LIFETIME''
     \<Longrightarrow> getEnv (S\<lparr>environ := (environ S)(''TOKEN_LIFETIME'' \<mapsto> l)\<rparr>) k d = getEnv S k d"
  "getEnv (S\<lparr>environ := (environ S)(''TOKEN_LIFETIME'' \<mapsto> l)\<rparr>) ''TOKEN_LIFETIME'' d = l"
  by (simp_all add: Getenv_def getEnv_def)

lemma loadConfig_lifetime:
  "loadConfig S = Inr (c, l)
     \<Longrightarrow> loadConfig (S\<lparr>environ := (environ S)(''TOKEN_LIFETIME'' \<mapsto> t)\<rparr>)
         = Inr (c\<lparr>TokenLifeTime := t\<rparr>, l)"
  unfolding loadConfig_def
  by (auto simp add: environ_update_other Let_def split: if_splits sum.splits prod.splits)

lemma loadConfig_stopped:
  "loadConfig S = Inl st \<Longrightarrow> st = Exited \<or> st = Returned None (Some ErrNotInCluster)"
  unfolding loadConfig_def
  by (auto simp add: Let_def split: if_splits sum.splits prod.splits)

lemma ruleOk_environ: "ruleOk (S\<lparr>environ := e\<rparr>) = ruleOk S"
proof (intro ext)
  fix v r
  show "ruleOk (S\<lparr>environ := e\<rparr>) v r = ruleOk S v r"
    by (cases r) simp_all
qed

lemma ValidateStruct_environ: "ValidateStruct (S\<lparr>environ := e\<rparr>) fs = ValidateStruct S fs"
  by (simp add: ValidateStruct_def ruleOk_environ)

lemma MakeConfig_lifetime_unchecked:
  assumes "MakeConfig S = Returned (Some cfg) None"
  shows "MakeConfig (S\<lparr>environ := (environ S)(''TOKEN_LIFETIME'' \<mapsto> t)\<rparr>)
           = Returned (Some (cfg\<lparr>TokenLifeTime := t\<rparr>)) None"
proof -
  from assms obtain c l where cl: "loadConfig S = Inr (c, l)"
    by (cases "loadConfig S") (auto simp add: MakeConfig_def dest: loadConfig_stopped)
  with assms have v: "validateConfig S c = None" "validateLdap S l = None" "c = cfg"
    by (auto simp add: MakeConfig_def Let_def split: if_splits)
  have v': "validateConfig (S\<lparr>environ := (environ S)(''TOKEN_LIFETIME'' \<mapsto> t)\<rparr>)
              (c\<lparr>TokenLifeTime := t\<rparr>) = validateConfig S c"
    "validateLdap (S\<lparr>environ := (environ S)(''TOKEN_LIFETIME'' \<mapsto> t)\<rparr>) l = validateLdap S l"
    by (simp_all add: validateConfig_def validateLdap_def ValidateStruct_environ)
  from v v' show ?thesis
    by (simp add: MakeConfig_def loadConfig_lifetime [OF cl])
qed

lemma loadConfig_fullCluster:
  "loadConfig fullCluster = Inr (sampleConfig ''4h'', Ldap (sampleConfig ''4h''))"
  by (simp add: loadConfig_def Getenv_def getEnv_def fullCluster_def Atoi_def ParseBool_def
      JoinHostPort_def Let_def encodeStd_def sampleConfig_def)

lemma MakeConfig_fullCluster:
  "MakeConfig fullCluster = Returned (Some (sampleConfig ''4h'')) None"
proof -
  have "validateConfig fullCluster (sampleConfig ''4h'') = None"
    by (simp add: validateConfig_def ValidateStruct_def sampleConfig_def) (simp add: fullCluster_def)
  moreover have "validateLdap fullCluster (Ldap (sampleConfig ''4h'')) = None"
    by (simp add: validateLdap_def ValidateStruct_def sampleConfig_def) (simp add: fullCluster_def)
  ultimately show ?thesis
    by (simp add: MakeConfig_def loadConfig_fullCluster)
qed

lemma sampleConfig_lifetime: "(sampleConfig a)\<lparr>TokenLifeTime := b\<rparr> = sampleConfig b"
  by (simp add: sampleConfig_def)

lemma userClaims_alice:
  "userClaims sample (sampleConfig ''4h'') sampleNow groups ''alice'' True = aliceClaims 1000014400"
  by (simp add: userClaims_def sample_def sampleConfig_def aliceClaims_def Unix_def sampleNow_def)

lemma baseGenerateToken_alice:
  "\<exists>tok. baseGenerateToken sample (sampleConfig ''4h'') key sampleNow
            \<lparr>Username = ''alice'', Password = ''secret''\<rparr> = (Some tok, None)"
proof -
  obtain js where "marshalClaims sample (aliceClaims 1000014400) = Inr js"
    by (simp add: sample_def recordedClaims_def)
  then have "snd (generateUserToken sample (sampleConfig ''4h'') key sampleNow
                   [''grp-ns-dev'', ''grp-admin''] ''alice'' True) = None"
    by (simp add: generateUserToken_def userClaims_alice SignedString_def Let_def)
  moreover have "AuthenticateUser sample ''alice'' ''secret'' = Inr ''uid=alice,ou=people''"
    "GetUserGroups sample ''uid=alice,ou=people'' = Inr [''grp-ns-dev'', ''grp-admin'']"
    "HasAdminAccess sample ''uid=alice,ou=people''"
    by (simp_all add: sample_def)
  ultimately show ?thesis
    by (auto simp add: baseGenerateToken_def split: prod.splits option.splits)
qed

text \<open>A successful \<open>GenerateConfig\<close>, started on a fresh response writer: status 201, the
  marshalled document as body, and a header snapshot taken before the content type was set.\<close>

lemma GenerateConfig_success:
  assumes "basicAuth r = Return (None, Some a)"
    and "baseGenerateToken W cfg key now a = (Some token, None)"
  shows "GenerateConfig W cfg key now r emptyResponse =
     (\<lparr>handlerHeader = [''Content-Type'' \<mapsto> ''text/x-yaml; charset=utf-8''],
       wroteHeader = True, status = 201, sentHeader = Map.empty,
       body = fst (yamlMarshal W (kubeConfig cfg r a token))\<rparr>, None)"
  using assms
  by (simp add: GenerateConfig_def emptyResponse_def WriteHeader_def Write_def HeaderSet_def Let_def)

text \<open>The document of a successful issuance: the constants, one cluster entry named
  \<open>kubernetes\<close>, the context name and current context \<open>kubernetes-\<close> followed by the user
  name, and one user entry with the user name and the token.\<close>

lemma kubeConfig_document:
  "ApiVersion (kubeConfig cfg r a token) = ''v1''
   \<and> Kind (kubeConfig cfg r a token) = ''Config''
   \<and> map ClusterName (Clusters (kubeConfig cfg r a token)) = [''kubernetes'']
   \<and> CurrentContext (kubeConfig cfg r a token) = ''kubernetes-'' @ Username a
   \<and> map ContextName (Contexts (kubeConfig cfg r a token)) = [''kubernetes-'' @ Username a]
   \<and> Users (kubeConfig cfg r a token) = [\<lparr>UserName = Username a, UserData = \<lparr>Token = token\<rparr>\<rparr>]"
  by (simp add: kubeConfig_def)

section \<open>Facts about the encoding and the token library\<close>

lemma decodeMap_nth: "distinct al \<Longrightarrow> i < length al \<Longrightarrow> decodeMap al (al ! i) = Some i"
proof (induction al arbitrary: i)
  case Nil
  then show ?case by simp
next
  case (Cons x xs)
  show ?case
  proof (cases i)
    case 0
    then show ?thesis by simp
  next
    case (Suc j)
    with Cons.prems have "j < length xs" "xs ! j \<noteq> x" "distinct xs" by auto
    with Cons.IH [of j] Suc show ?thesis by simp
  qed
qed

lemma decodeMap_None: "c \<notin> set al \<Longrightarrow> decodeMap al c = None"
  by (induction al) auto

lemma index_bounds: fixes a b c :: nat assumes "a < 256" "b < 256" "c < 256"
  shows "a div 4 < 64" "(a mod 4) * 16 + b div 16 < 64" "(b mod 16) * 4 + c div 64 < 64" "c mod 64 < 64"
    "(a mod 4) * 16 < 64" "(b mod 16) * 4 < 64"
  using assms by auto
lemma byte_rebuild: fixes a b c :: nat assumes "a < 256" "b < 256" "c < 256"
  shows "a div 4 * 4 + ((a mod 4) * 16 + b div 16) div 16 = a"
   "(((a mod 4) * 16 + b div 16) mod 16) * 16 + ((b mod 16) * 4 + c div 64) div 4 = b"
   "(((b mod 16) * 4 + c div 64) mod 4) * 64 + c mod 64 = c"
   "a div 4 * 4 + ((a mod 4) * 16) div 16 = a"
   "(((a mod 4) * 16 + b div 16) mod 16) * 16 + ((b mod 16) * 4) div 4 = b"
  using assms by simp_all

lemma decodeMap_alphabet: "alphabet al \<Longrightarrow> i < 64 \<Longrightarrow> decodeMap al (al ! i) = Some i"
  by (simp add: alphabet_def decodeMap_nth)

lemma nibble_small: fixes x :: nat assumes "x < 256"
  shows "x div 16 div 16 = 0" "x div 16 mod 16 = x div 16" "x div 64 div 4 = 0" "x div 64 mod 4 = x div 64"
  using assms by (simp_all add: div_mult2_eq [symmetric])

lemma decodeQuanta_three: assumes al: "alphabet al"
  shows "decodeQuanta al (al ! (of_char a div 4) # al ! ((of_char a mod 4) * 16 + of_char b div 16)
       # al ! ((of_char b mod 16) * 4 + of_char c div 64) # al ! (of_char c mod 64) # rest)
     = (a # b # c # fst (decodeQuanta al rest), snd (decodeQuanta al rest))"
proof -
  have b: "(of_char a :: nat) < 256" "(of_char b :: nat) < 256" "(of_char c :: nat) < 256" by simp_all
  note i = index_bounds [OF b]
  show ?thesis
    by (simp add: decodeMap_alphabet [OF al] i nibble_small [OF b(2)] nibble_small [OF b(3)] byte_def Let_def)
qed

lemma decodeQuanta_two: assumes al: "alphabet al"
  shows "decodeQuanta al [al ! (of_char a div 4), al ! ((of_char a mod 4) * 16 + of_char b div 16),
       al ! ((of_char b mod 16) * 4), CHR ''='']
     = ([a, b], True)"
proof -
  have b: "(of_char a :: nat) < 256" "(of_char b :: nat) < 256" by simp_all
  note i = index_bounds [OF b b(1)]
  have n: "decodeMap al (CHR ''='') = None" using al by (simp add: alphabet_def decodeMap_None)
  show ?thesis
    by (simp add: decodeMap_alphabet [OF al] i nibble_small [OF b(2)] byte_def n)
qed

lemma decodeQuanta_one: assumes al: "alphabet al"
  shows "decodeQuanta al [al ! (of_char a div 4), al ! ((of_char a mod 4) * 16), CHR ''='', CHR ''='']
     = ([a], True)"
proof -
  have b: "(of_char a :: nat) < 256" by simp_all
  note i = index_bounds [OF b b b]
  have n: "decodeMap al (CHR ''='') = None" using al by (simp add: alphabet_def decodeMap_None)
  show ?thesis
    by (simp add: decodeMap_alphabet [OF al] i byte_def n)
qed

lemma decodeQuanta_EncodeToString: "alphabet al \<Longrightarrow> decodeQuanta al (EncodeToString al bs) = (bs, True)"
proof (induction al bs rule: EncodeToString.induct)
  case (1 al a b c rest)
  then show ?case by (simp add: decodeQuanta_three del: decodeQuanta.simps)
next
  case (2 al a b)
  then show ?case by (simp add: decodeQuanta_two del: decodeQuanta.simps)
next
  case (3 al a)
  then show ?case by (simp add: decodeQuanta_one del: decodeQuanta.simps)
next
  case (4 al)
  then show ?case by simp
qed

lemma encodeURL_alphabet: "alphabet encodeURL"
  by (simp add: alphabet_def encodeURL_def)

lemma encodeURL_chars: "CHR ''.'' \<notin> set encodeURL" "CHR '' '' \<notin> set encodeURL" "CHR 0x0A \<notin> set encodeURL" "CHR 0x0D \<notin> set encodeURL"
  by (simp_all add: encodeURL_def)

lemma nth_alphabet: "alphabet al \<Longrightarrow> i < 64 \<Longrightarrow> al ! i \<in> set al"
  by (simp add: alphabet_def)

lemma EncodeToString_shape:
  assumes "alphabet al"
  shows "\<exists>bd n. shape al (EncodeToString al bs) bd n"
  using assms
proof (induction al bs rule: EncodeToString.induct)
  case (1 al a b c rest)
  from "1.IH" [OF "1.prems"] obtain bd n where r: "shape al (EncodeToString al rest) bd n" by auto
  have b: "(of_char a :: nat) < 256" "(of_char b :: nat) < 256" "(of_char c :: nat) < 256" by simp_all
  let ?q = "[al ! (of_char a div 4), al ! ((of_char a mod 4) * 16 + of_char b div 16),
       al ! ((of_char b mod 16) * 4 + of_char c div 64), al ! (of_char c mod 64)]"
  have "set ?q \<subseteq> set al" using nth_alphabet [OF "1.prems"] index_bounds [OF b] by simp
  with r have "shape al (EncodeToString al (a # b # c # rest)) (?q @ bd) n"
    by (simp add: shape_def)
  then show ?case by blast
next
  case (2 al a b)
  have b: "(of_char a :: nat) < 256" "(of_char b :: nat) < 256" by simp_all
  let ?q = "[al ! (of_char a div 4), al ! ((of_char a mod 4) * 16 + of_char b div 16),
       al ! ((of_char b mod 16) * 4)]"
  have "set ?q \<subseteq> set al" using nth_alphabet [OF "2.prems"] index_bounds [OF b b(1)] by simp
  then have "shape al (EncodeToString al [a, b]) ?q 1"
    by (simp add: shape_def)
  then show ?case by blast
next
  case (3 al a)
  have b: "(of_char a :: nat) < 256" by simp_all
  let ?q = "[al ! (of_char a div 4), al ! ((of_char a mod 4) * 16)]"
  have "set ?q \<subseteq> set al" using nth_alphabet [OF "3.prems"] index_bounds [OF b b b] by simp
  then have "shape al (EncodeToString al [a]) ?q 2"
    by (simp add: shape_def numeral_2_eq_2)
  then show ?case by blast
next
  case (4 al)
  have "shape al (EncodeToString al []) [] 0" by (simp add: shape_def)
  then show ?case by blast
qed

lemma TrimRightPad_body: "CHR ''='' \<notin> set bd \<Longrightarrow> TrimRightPad (bd @ replicate n (CHR ''='')) = bd"
proof -
  assume a: "CHR ''='' \<notin> set bd"
  have "dropWhile (\<lambda>c. c = CHR ''='') (replicate n (CHR ''='') @ rev bd) = dropWhile (\<lambda>c. c = CHR ''='') (rev bd)"
    by (induction n) simp_all
  moreover have "dropWhile (\<lambda>c. c = CHR ''='') (rev bd) = rev bd"
    using a by (cases "rev bd") auto
  ultimately show ?thesis by (simp add: TrimRightPad_def)
qed


lemma Segment_round_trip:
  assumes al: "alphabet al" and nl: "CHR 0x0A \<notin> set al" "CHR 0x0D \<notin> set al"
  shows "DecodeString al (let seg = TrimRightPad (EncodeToString al bs); l = length seg mod 4 in
            if l > 0 then seg @ replicate (4 - l) (CHR ''='') else seg) = (bs, True)"
proof -
  obtain bd n where sh: "shape al (EncodeToString al bs) bd n"
    using EncodeToString_shape [OF al] by blast
  then have e: "EncodeToString al bs = bd @ replicate n (CHR ''='')" and sub: "set bd \<subseteq> set al"
    and n: "n < 3" "(length bd + n) mod 4 = 0"
    by (simp_all add: shape_def)
  from al sub have noeq: "CHR ''='' \<notin> set bd" by (auto simp add: alphabet_def)
  have t: "TrimRightPad (EncodeToString al bs) = bd" by (simp add: e TrimRightPad_body [OF noeq])
  have pad: "(if length bd mod 4 > 0 then bd @ replicate (4 - length bd mod 4) (CHR ''='') else bd)
       = EncodeToString al bs"
  proof (cases "n = 0")
    case True
    with n e show ?thesis by simp
  next
    case False
    with n have "length bd mod 4 = 4 - n" by presburger
    with n False e show ?thesis by simp
  qed
  have "filter (\<lambda>c. \<not> isNewline c) (EncodeToString al bs) = EncodeToString al bs"
    using sub nl by (auto simp add: e isNewline_def filter_id_conv)
  then show ?thesis
    by (simp add: t pad Let_def DecodeString_def decodeQuanta_EncodeToString [OF al])
qed

lemma DecodeSegment_EncodeSegment: "DecodeSegment (EncodeSegment bs) = (bs, True)"
  using Segment_round_trip [OF encodeURL_alphabet encodeURL_chars(3,4), of bs]
  by (simp add: DecodeSegment_def EncodeSegment_def Let_def)

lemma EncodeSegment_chars: "set (EncodeSegment bs) \<subseteq> set encodeURL"
proof -
  obtain bd n where sh: "shape encodeURL (EncodeToString encodeURL bs) bd n"
    using EncodeToString_shape [OF encodeURL_alphabet] by blast
  then have e: "EncodeToString encodeURL bs = bd @ replicate n (CHR ''='')" and sub: "set bd \<subseteq> set encodeURL"
    by (simp_all add: shape_def)
  from encodeURL_alphabet sub have noeq: "CHR ''='' \<notin> set bd" by (auto simp add: alphabet_def)
  show ?thesis by (simp add: EncodeSegment_def e TrimRightPad_body [OF noeq] sub)
qed

lemma Cut_absent: "x \<in> set sep \<Longrightarrow> x \<notin> set s \<Longrightarrow> Cut sep s = None"
proof (induction s)
  case Nil
  then show ?case by auto
next
  case (Cons c cs)
  from Cons.prems have "\<not> prefix sep (c # cs)"
    using set_mono_prefix by fastforce
  with Cons show ?case by simp
qed

lemma Cut_first: "x \<notin> set a \<Longrightarrow> Cut [x] (a @ x # rest) = Some (a, rest)"
  by (induction a) auto

lemma Split_none: "x \<in> set sep \<Longrightarrow> x \<notin> set s \<Longrightarrow> Split s sep = [s]"
  by (subst Split.simps) (auto simp add: Cut_absent)

lemma Split_first: "x \<notin> set a \<Longrightarrow> Split (a @ x # rest) [x] = a # Split rest [x]"
  by (subst Split.simps) (simp add: Cut_first)

lemma Split_three:
  assumes "x \<notin> set a" "x \<notin> set b" "x \<notin> set c"
  shows "Split (a @ [x] @ b @ [x] @ c) [x] = [a, b, c]"
  using assms by (simp add: Split_first Split_none)

lemma Split_bearer: "CHR '' '' \<notin> set tok \<Longrightarrow> Split (''Bearer '' @ tok) ''Bearer '' = [[], tok]"
proof -
  assume a: "CHR '' '' \<notin> set tok"
  have "Cut ''Bearer '' (''Bearer '' @ tok) = Some ([], tok)" by simp
  moreover have "Split tok ''Bearer '' = [tok]" using a by (simp add: Split_none [of "CHR '' ''"])
  ultimately show ?thesis by (subst Split.simps) simp
qed




lemma Split_parts:
  assumes "CHR ''.'' \<notin> set h" "CHR ''.'' \<notin> set p" "CHR ''.'' \<notin> set s"
  shows "Split (h @ ''.'' @ p @ ''.'' @ s) ''.'' = [h, p, s]"
  using Split_three [OF assms] by simp

lemma EncodeSegment_no_dot: "CHR ''.'' \<notin> set (EncodeSegment bs)"
  using EncodeSegment_chars [of bs] encodeURL_chars(1) by blast

lemma EncodeSegment_no_space: "CHR '' '' \<notin> set (EncodeSegment bs)"
  using EncodeSegment_chars [of bs] encodeURL_chars(2) by blast

text \<open>Parsing three dot-free segments whose header and payload are the encodings of the header of
  HS512 and of claims that the decoder reads back.\<close>
lemma ParseWithClaims_segments:
  assumes hdr: "unmarshalHeader W headerJSON = Some (Some ''HS512'')"
    and dec: "unmarshalClaims W js = Some c"
    and s: "CHR ''.'' \<notin> set s"
  shows "ParseWithClaims W key t (EncodeSegment headerJSON @ ''.'' @ EncodeSegment js @ ''.'' @ s)
     = (let errs = claimsValid (Unix t) c
               \<union> (if DecodeSegment s = (hmacSHA512 W key (EncodeSegment headerJSON @ ''.'' @ EncodeSegment js), True)
                    then {} else {SignatureInvalid})
        in if errs = {} then (Some \<lparr>Claims = Some c, Valid = True\<rparr>, None)
           else (Some \<lparr>Claims = Some c, Valid = False\<rparr>, Some (ValidationError errs)))"
proof -
  have sp: "Split (EncodeSegment headerJSON @ ''.'' @ EncodeSegment js @ ''.'' @ s) ''.''
      = [EncodeSegment headerJSON, EncodeSegment js, s]"
    by (rule Split_parts [OF EncodeSegment_no_dot EncodeSegment_no_dot s])
  have v: "HMACVerify (hmacSHA512 W) m s key = (DecodeSegment s = (hmacSHA512 W key m, True))" for m
    by (cases "DecodeSegment s") (auto simp add: HMACVerify_def)
  show ?thesis
    unfolding ParseWithClaims_def sp
    by (simp add: DecodeSegment_EncodeSegment hdr dec GetSigningMethod_def v Let_def)
qed

lemma SignedString_ok:
  assumes "marshalClaims W c = Inr js"
  shows "SignedString W c key =
     (EncodeSegment headerJSON @ ''.'' @ EncodeSegment js @ ''.''
        @ EncodeSegment (hmacSHA512 W key (EncodeSegment headerJSON @ ''.'' @ EncodeSegment js)), None)"
  using assms by (simp add: SignedString_def Let_def)

lemma claimsValid_issued:
  "claimsValid s (userClaims W cfg now groups username admin)
     = (if ExpiresAt (userClaims W cfg now groups username admin) = 0
           \<or> s \<le> ExpiresAt (userClaims W cfg now groups username admin) then {} else {Expired})"
  by (simp add: claimsValid_def userClaims_def Let_def)

text \<open>Verifying a token as it was issued: the outcome depends on the expiry alone.\<close>
lemma ParseWithClaims_issued:
  assumes enc: "marshalClaims W c = Inr js"
    and dec: "unmarshalClaims W js = Some c"
    and hdr: "unmarshalHeader W headerJSON = Some (Some ''HS512'')"
  shows "ParseWithClaims W key t (fst (SignedString W c key))
     = (if claimsValid (Unix t) c = {} then (Some \<lparr>Claims = Some c, Valid = True\<rparr>, None)
        else (Some \<lparr>Claims = Some c, Valid = False\<rparr>, Some (ValidationError (claimsValid (Unix t) c))))"
  unfolding SignedString_ok [OF enc] fst_conv
    ParseWithClaims_segments [OF hdr dec EncodeSegment_no_dot]
  by (simp add: DecodeSegment_EncodeSegment)

lemma bearerToken_issued:
  assumes enc: "marshalClaims W c = Inr js"
  shows "bearerToken (''Bearer '' @ fst (SignedString W c key)) = Return (Inr (fst (SignedString W c key)))"
proof -
  let ?tok = "fst (SignedString W c key)"
  have "CHR '' '' \<notin> set ?tok"
    using EncodeSegment_no_space by (simp add: SignedString_ok [OF enc])
  then have sp: "Split (''Bearer '' @ ?tok) ''Bearer '' = [[], ?tok]" by (rule Split_bearer)
  have "?tok \<noteq> []" by (simp add: SignedString_ok [OF enc])
  then have "0 < length ?tok" by simp
  then have len: "8 \<le> length (''Bearer '' @ ?tok)" by (simp add: Suc_le_eq)
  have pre: "prefix ''Bearer '' (''Bearer '' @ ?tok)" by (rule prefixI) simp
  have ne: "\<not> length (''Bearer '' @ ?tok) < 8" using len by (simp only: not_less)
  show ?thesis
    unfolding bearerToken_def bearerPrefix_def sp Let_def
    by (simp only: pre ne) simp
qed

lemma CurrentJWT_issued:
  assumes enc: "marshalClaims W c = Inr js"
    and dec: "unmarshalClaims W js = Some c"
    and hdr: "unmarshalHeader W headerJSON = Some (Some ''HS512'')"
  shows "CurrentJWT W key t \<lparr>Authorization = ''Bearer '' @ fst (SignedString W c key), Host = h, Body = b\<rparr>
     = (if claimsValid (Unix t) c = {} then Return (Some c, None)
        else Return (None, Some (ValidationError (claimsValid (Unix t) c))))"
  by (simp add: CurrentJWT_def bearerToken_issued [OF enc] ParseWithClaims_issued [OF enc dec hdr]
      del: append.simps)

lemma Unix_mono: "a \<le> b \<Longrightarrow> Unix a \<le> Unix b"
  by (simp add: Unix_def zdiv_mono1)

lemma Unix_later: "a + 1000000000 \<le> b \<Longrightarrow> Unix a < Unix b"
proof -
  assume "a + 1000000000 \<le> b"
  then have "Unix (a + 1000000000) \<le> Unix b" by (rule Unix_mono)
  moreover have "Unix (a + 1000000000) = Unix a + 1" by (simp add: Unix_def)
  ultimately show ?thesis by simp
qed

lemma userClaims_fields:
  "User (userClaims W cfg now groups username admin) = username"
  "AdminAccess (userClaims W cfg now groups username admin) = admin"
  "Auths (userClaims W cfg now groups username admin) = GetUserNamespaces W groups"
  "ExpiresAt (userClaims W cfg now groups username admin) = Unix (now + fst (ParseDuration W (TokenLifeTime cfg)))"
  "Issuer (userClaims W cfg now groups username admin) = ''Kubi Server''"
  by (simp_all add: userClaims_def Let_def)

lemma sample_codec:
  "marshalClaims sample (aliceClaims 1000014400) = Inr (snd (recordedClaims ! 0))"
  "unmarshalClaims sample (snd (recordedClaims ! 0)) = Some (aliceClaims 1000014400)"
  "marshalClaims sample (aliceClaims 1000000002) = Inr (snd (recordedClaims ! 1))"
  "unmarshalClaims sample (snd (recordedClaims ! 1)) = Some (aliceClaims 1000000002)"
  "unmarshalHeader sample headerJSON = Some (Some ''HS512'')"
  by (simp_all add: sample_def recordedClaims_def aliceClaims_def)

lemma userClaims_alice_2s: "userClaims sample (sampleConfig ''2s'') (sampleNow + 500000000) groups ''alice'' True = aliceClaims 1000000002"
  by (simp add: userClaims_def sample_def sampleConfig_def aliceClaims_def Unix_def sampleNow_def)







lemma Cut_prefix: "sep \<noteq> [] \<Longrightarrow> Cut sep (sep @ rest) = Some ([], rest)"
  by (cases sep) simp_all

lemma Split_nonempty: "Split s sep \<noteq> []"
  by (subst Split.simps) (simp split: option.splits)

lemma Split_prefix: "sep \<noteq> [] \<Longrightarrow> Split (sep @ rest) sep = [] # Split rest sep"
  by (subst Split.simps) (simp add: Cut_prefix)

text \<open>The token of a header with the prefix is the remainder up to the next occurrence of
  the prefix; no header makes \<open>CurrentJWT\<close> stop with a fault.\<close>
lemma bearerToken_prefix:
  assumes "rest \<noteq> []"
  shows "bearerToken (''Bearer '' @ rest) = Return (Inr (hd (Split rest ''Bearer '')))"
proof -
  have sp: "Split (''Bearer '' @ rest) ''Bearer '' = [] # Split rest ''Bearer ''"
    by (rule Split_prefix) simp
  have pre: "prefix ''Bearer '' (''Bearer '' @ rest)" by (rule prefixI) simp
  from assms have "0 < length rest" by simp
  then have ne: "\<not> length (''Bearer '' @ rest) < 8" by (simp add: Suc_le_eq not_less)
  have l: "\<not> length ([] # Split rest ''Bearer '') < 2"
    using Split_nonempty [of rest "''Bearer ''"] by (cases "Split rest ''Bearer ''") simp_all
  show ?thesis
    unfolding bearerToken_def bearerPrefix_def sp Let_def
    by (simp only: pre ne l) (simp add: hd_conv_nth Split_nonempty)
qed

lemma bearerToken_whole_remainder:
  assumes "rest \<noteq> []" and "Cut ''Bearer '' rest = None"
  shows "bearerToken (''Bearer '' @ rest) = Return (Inr rest)"
proof -
  from assms(2) have "Split rest ''Bearer '' = [rest]" by (subst Split.simps) simp
  with bearerToken_prefix [OF assms(1)] show ?thesis by simp
qed

lemma bearerToken_error:
  "\<not> prefix ''Bearer '' bearer \<or> length bearer < 8
     \<Longrightarrow> bearerToken bearer = Return (Inl (InvalidAuthorizationHeader bearer))"
  by (simp add: bearerToken_def bearerPrefix_def)

lemma bearerToken_never_panics: "bearerToken bearer \<noteq> Panic f"
proof (cases "prefix ''Bearer '' bearer \<and> \<not> length bearer < 8")
  case True
  then obtain rest where r: "bearer = ''Bearer '' @ rest" by (auto simp add: prefix_def)
  with True have "rest \<noteq> []" by auto
  from bearerToken_prefix [OF this] r show ?thesis by simp
next
  case False
  then show ?thesis by (simp add: bearerToken_def bearerPrefix_def)
qed

lemma ParseWithClaims_nil_error: "ParseWithClaims W key now s = (tok, None) \<Longrightarrow> \<exists>c. tok = Some \<lparr>Claims = Some c, Valid = True\<rparr>"
  unfolding ParseWithClaims_def Let_def
  by (auto split: if_splits prod.splits bool.splits option.splits)

lemma CurrentJWT_never_panics: "CurrentJWT W key now r \<noteq> Panic f"
proof (cases "bearerToken (Authorization r)")
  case (Panic g)
  with bearerToken_never_panics show ?thesis by blast
next
  case (Return x)
  show ?thesis
  proof (cases x)
    case (Inl e)
    with Return show ?thesis by (simp add: CurrentJWT_def)
  next
    case (Inr bearer)
    obtain tok err where p: "ParseWithClaims W key now bearer = (tok, err)" by (cases "ParseWithClaims W key now bearer")
    show ?thesis
    proof (cases err)
      case None
      with p ParseWithClaims_nil_error obtain c where "tok = Some \<lparr>Claims = Some c, Valid = True\<rparr>" by blast
      with Return Inr p None show ?thesis by (simp add: CurrentJWT_def)
    next
      case (Some e)
      with Return Inr p show ?thesis by (simp add: CurrentJWT_def split: option.splits)
    qed
  qed
qed

lemma GenerateJWT_no_token:
  assumes "basicAuth r = Return (None, Some a)" and "fst (baseGenerateToken W cfg key now a) = None"
  shows "GenerateJWT W cfg key now r w = (w, None)"
  using assms by (cases "baseGenerateToken W cfg key now a") (simp add: GenerateJWT_def)


section \<open>Startup\<close>

text \<open>
  C10. When the core section of the configuration validates and the LDAP section does not,
  \<open>MakeConfig\<close> returns the nil configuration together with the nil error: the error it
  returns in that branch is the one of the core validation.
\<close>

theorem MakeConfig_invalid_ldap_nil_nil:
  assumes "loadConfig S = Inr (config, ldapConfig)"
    and "validateConfig S config = None"
    and "validateLdap S ldapConfig \<noteq> None"
  shows "MakeConfig S = Returned None None"
  using assms by (simp add: MakeConfig_def)

theorem MakeConfig_invalid_ldap_nil_nil_witness:
  "(\<exists>config ldapConfig. loadConfig clusterOnly = Inr (config, ldapConfig)
      \<and> validateConfig clusterOnly config = None
      \<and> validateLdap clusterOnly ldapConfig \<noteq> None)
   \<and> MakeConfig clusterOnly = Returned None None"
proof -
  obtain config ldapConfig where load: "loadConfig clusterOnly = Inr (config, ldapConfig)"
    by (simp add: loadConfig_def Getenv_def getEnv_def clusterOnly_def Atoi_def ParseBool_def Let_def)
  then have c: "ApiServerURL config = ''10.0.0.1:443''" "KubeToken config = ''token''"
      "KubeCa config = ''Q0E=''"
    and l: "UserBase ldapConfig = []"
    by (auto simp add: loadConfig_def Getenv_def getEnv_def clusterOnly_def Atoi_def ParseBool_def
        JoinHostPort_def Let_def encodeStd_def)
  have core: "validateConfig clusterOnly config = None"
    by (simp add: validateConfig_def ValidateStruct_def c) (simp add: clusterOnly_def)
  have ldap: "validateLdap clusterOnly ldapConfig \<noteq> None"
    by (simp add: validateLdap_def ValidateStruct_def l)
  from MakeConfig_invalid_ldap_nil_nil [OF load core ldap] load core ldap show ?thesis
    by blast
qed

text \<open>
  C5. The claim says that a malformed lifetime string is fatal at startup and so never
  changes what a request does. \<open>MakeConfig\<close> stores any \<open>TOKEN_LIFETIME\<close> without looking
  at it, and \<open>generateUserToken\<close> parses the stored string at every call and does not read
  the parser's error: started with the lifetime \<open>bogus\<close> the service comes up, the parser
  rejects the string at each issuance, the issuance returns a token and no error, and the
  token expires in the second in which it is issued, where the lifetime \<open>4h\<close> gives 14400
  seconds more.
\<close>

theorem malformed_lifetime_reaches_requests:
  "MakeConfig (fullCluster\<lparr>environ := (environ fullCluster)(''TOKEN_LIFETIME'' \<mapsto> ''bogus'')\<rparr>)
     = Returned (Some (sampleConfig ''bogus'')) None
   \<and> snd (ParseDuration sample ''bogus'') \<noteq> None
   \<and> snd (generateUserToken sample (sampleConfig ''bogus'') ''k3y'' sampleNow [] ''alice'' True)
       = None
   \<and> ExpiresAt (userClaims sample (sampleConfig ''bogus'') sampleNow [] ''alice'' True)
       = Unix sampleNow
   \<and> ExpiresAt (userClaims sample (sampleConfig ''4h'') sampleNow [] ''alice'' True)
       = Unix sampleNow + 14400"
proof -
  have "userClaims sample (sampleConfig ''bogus'') sampleNow [] ''alice'' True
          = aliceClaims 1000000000"
    by (simp add: userClaims_def sample_def sampleConfig_def aliceClaims_def Unix_def sampleNow_def)
  moreover obtain js where "marshalClaims sample (aliceClaims 1000000000) = Inr js"
    by (simp add: sample_def recordedClaims_def aliceClaims_def)
  ultimately have "snd (generateUserToken sample (sampleConfig ''bogus'') ''k3y'' sampleNow []
                          ''alice'' True) = None"
    by (simp add: generateUserToken_def SignedString_def Let_def)
  moreover
  have "MakeConfig (fullCluster\<lparr>environ := (environ fullCluster)(''TOKEN_LIFETIME'' \<mapsto> ''bogus'')\<rparr>)
     = Returned (Some (sampleConfig ''bogus'')) None"
    using MakeConfig_lifetime_unchecked [OF MakeConfig_fullCluster, of "''bogus''"]
    by (simp add: sampleConfig_lifetime)
  moreover have "snd (ParseDuration sample ''bogus'') \<noteq> None"
    by (simp add: sample_def)
  moreover have "ExpiresAt (userClaims sample (sampleConfig ''bogus'') sampleNow [] ''alice'' True)
       = Unix sampleNow"
    by (simp add: userClaims_def sample_def sampleConfig_def)
  moreover have "ExpiresAt (userClaims sample (sampleConfig ''4h'') sampleNow [] ''alice'' True)
       = Unix sampleNow + 14400"
    by (simp add: userClaims_def sample_def sampleConfig_def Unix_def sampleNow_def)
  ultimately show ?thesis by blast
qed

theorem malformed_lifetime_reaches_requests_witness:
  "ExpiresAt (userClaims sample (sampleConfig ''bogus'') sampleNow [] ''alice'' True)
     \<noteq> ExpiresAt (userClaims sample (sampleConfig ''4h'') sampleNow [] ''alice'' True)
   \<and> MakeConfig (fullCluster\<lparr>environ := (environ fullCluster)(''TOKEN_LIFETIME'' \<mapsto> ''bogus'')\<rparr>)
       \<noteq> Exited"
  using malformed_lifetime_reaches_requests by simp

section \<open>Extraction\<close>

text \<open>
  C2. The claim says that no input makes the extractors or the verifier raise a fault. The
  header \<open>Basic \<close> followed by nothing passes the scheme check of \<open>basicAuth\<close>; its payload is
  empty, the split at the colon has one element, and the index \<open>pair[1]\<close> is out of range.
  \<open>VerifyJWT\<close> dereferences the nil token that the parser returns for a body without three
  segments.
\<close>

theorem basicAuth_index_out_of_range:
  "basicAuth (request ''Basic '') = Panic IndexOutOfRange
   \<and> snd (VerifyJWT sample ''k3y'' sampleNow ((request [])\<lparr>Body := ''abc''\<rparr>) emptyResponse)
       = Some NilDereference"
  by (simp add: basicAuth_def SplitN2_def DecodeString_def request_def
      VerifyJWT_def ParseWithClaims_def Split.simps Let_def)

theorem basicAuth_index_out_of_range_witness:
  "basicAuth (request ''Basic '') \<noteq> Return (Some InvalidAuth, None)"
  using basicAuth_index_out_of_range by simp

text \<open>
  C4. The claim says that every input other than \<open>Basic \<close> followed by decodable base64 with
  a colon in the payload gives the one error value. \<open>YWJj\<close> decodes to \<open>abc\<close>, which has no
  colon: \<open>basicAuth\<close> stops with a fault, it returns no error. \<open>YTpi!!!\<close> is not decodable: the
  decoder's error is dropped and the bytes decoded before it, \<open>a:b\<close>, are accepted.
\<close>

theorem basicAuth_no_colon_or_corrupt:
  "basicAuth (request ''Basic YWJj'') = Panic IndexOutOfRange
   \<and> snd (DecodeString encodeStd ''YTpi!!!'') = False
   \<and> basicAuth (request ''Basic YTpi!!!'')
       = Return (None, Some \<lparr>Username = ''a'', Password = ''b''\<rparr>)"
  by code_simp

theorem basicAuth_no_colon_or_corrupt_witness:
  "basicAuth (request ''Basic YWJj'') \<noteq> Return (Some InvalidAuth, None)
   \<and> basicAuth (request ''Basic YTpi!!!'') \<noteq> Return (Some InvalidAuth, None)"
  using basicAuth_no_colon_or_corrupt by simp

text \<open>
  C7. The claim says that the token handed to the verifier is everything after the prefix.
  \<open>CurrentJWT\<close> splits the header at every occurrence of the prefix and takes the second
  part: for the header \<open>Bearer aBearer b\<close> the token is \<open>a\<close>, the remainder is \<open>aBearer b\<close>.
  So a header whose remainder is an issued token followed by \<open>Bearer x\<close> is accepted,
  where the whole remainder is no token.
\<close>

theorem bearerToken_second_part:
  "bearerToken ''Bearer aBearer b'' = Return (Inr ''a'')
   \<and> CurrentJWT sample ''k3y'' sampleNow
        (request (''Bearer '' @ fst (generateUserToken sample (sampleConfig ''4h'') ''k3y'' sampleNow
            [''grp-ns-dev'', ''grp-admin''] ''alice'' True) @ ''Bearer x''))
      = Return (Some (aliceClaims 1000014400), None)"
  by code_simp

theorem bearerToken_second_part_witness:
  "bearerToken ''Bearer aBearer b'' \<noteq> Return (Inr ''aBearer b'')"
  using bearerToken_second_part by simp

section \<open>Handlers\<close>

text \<open>
  C6. The claim says that a request whose credentials fail extraction or authentication is
  answered with 401 and the fixed message, and is not processed further. When the directory
  rejects the password, \<open>GenerateJWT\<close> returns without writing anything, so the status is 200
  and the body is empty. When the scheme is wrong it writes 401 and the message, goes on,
  and dereferences the nil credentials.
\<close>

theorem GenerateJWT_rejected_credentials:
  "GenerateJWT sample (sampleConfig ''4h'') ''k3y'' sampleNow
      (request ''Basic YWxpY2U6d3Jvbmc='') emptyResponse = (emptyResponse, None)
   \<and> finalStatus emptyResponse = 200
   \<and> GenerateJWT sample (sampleConfig ''4h'') ''k3y'' sampleNow
       (request ''Bearer abc'') emptyResponse
     = (Write invalidCredentials (WriteHeader 401 emptyResponse), Some NilDereference)"
  by (simp add: GenerateJWT_def basicAuth_alice_wrong basicAuth_wrong_scheme
      baseGenerateToken_def sample_def finalStatus_def emptyResponse_def)

theorem GenerateJWT_rejected_credentials_witness:
  "finalStatus (fst (GenerateJWT sample (sampleConfig ''4h'') ''k3y'' sampleNow
      (request ''Basic YWxpY2U6d3Jvbmc='') emptyResponse)) \<noteq> 401"
  using GenerateJWT_rejected_credentials by simp

text \<open>
  C9. The claim says that the response of a successful access-config issuance carries the
  status 201 and the content type \<open>text/x-yaml\<close>. \<open>GenerateConfig\<close> writes the status first
  and sets the content type afterwards: the header is written with the status, so the
  content type is in the handler's header map and not in the header that is sent. The
  request is the one of \<open>alice\<close> with her password.
\<close>

theorem GenerateConfig_content_type_not_sent:
  "snd (GenerateConfig sample (sampleConfig ''4h'') ''k3y'' sampleNow
          (request ''Basic YWxpY2U6c2VjcmV0'') emptyResponse) = None
   \<and> status (fst (GenerateConfig sample (sampleConfig ''4h'') ''k3y'' sampleNow
          (request ''Basic YWxpY2U6c2VjcmV0'') emptyResponse)) = 201
   \<and> sentHeader (fst (GenerateConfig sample (sampleConfig ''4h'') ''k3y'' sampleNow
          (request ''Basic YWxpY2U6c2VjcmV0'') emptyResponse)) ''Content-Type'' = None
   \<and> handlerHeader (fst (GenerateConfig sample (sampleConfig ''4h'') ''k3y'' sampleNow
          (request ''Basic YWxpY2U6c2VjcmV0'') emptyResponse)) ''Content-Type''
       = Some ''text/x-yaml; charset=utf-8''"
proof -
  obtain tok where "baseGenerateToken sample (sampleConfig ''4h'') ''k3y'' sampleNow
      \<lparr>Username = ''alice'', Password = ''secret''\<rparr> = (Some tok, None)"
    using baseGenerateToken_alice by blast
  from GenerateConfig_success [OF basicAuth_alice_secret this] show ?thesis
    by simp
qed

theorem GenerateConfig_content_type_not_sent_witness:
  "status (fst (GenerateConfig sample (sampleConfig ''4h'') ''k3y'' sampleNow
          (request ''Basic YWxpY2U6c2VjcmV0'') emptyResponse)) = 201
   \<and> sentHeader (fst (GenerateConfig sample (sampleConfig ''4h'') ''k3y'' sampleNow
          (request ''Basic YWxpY2U6c2VjcmV0'') emptyResponse)) ''Content-Type'' = None"
  using GenerateConfig_content_type_not_sent by simp

section \<open>Tokens\<close>

text \<open>
  C1. Round trip: when the claims of an issuance survive the JSON codec (the encoder accepts
  them and the decoder reads them back, as it does for a valid user name and valid grants),
  the header decoder reads the algorithm of the issued header, and the token is presented
  no later than the second of its expiry, then issuance succeeds and \<open>CurrentJWT\<close> returns
  claims with the user name and the admin flag of the issuance and with the grants of the
  mapper for the group list.
\<close>

theorem issue_verify_round_trip:
  assumes enc: "marshalClaims W (userClaims W cfg now groups username admin) = Inr js"
    and dec: "unmarshalClaims W js = Some (userClaims W cfg now groups username admin)"
    and hdr: "unmarshalHeader W headerJSON = Some (Some ''HS512'')"
    and live: "Unix t \<le> Unix (now + fst (ParseDuration W (TokenLifeTime cfg)))"
  shows "snd (generateUserToken W cfg key now groups username admin) = None
    \<and> (\<exists>claims.
         CurrentJWT W key t
           \<lparr>Authorization = ''Bearer '' @ fst (generateUserToken W cfg key now groups username admin),
            Host = h, Body = b\<rparr> = Return (Some claims, None)
         \<and> User claims = username \<and> AdminAccess claims = admin
         \<and> set (Auths claims) = set (GetUserNamespaces W groups))"
proof -
  let ?c = "userClaims W cfg now groups username admin"
  from live have "claimsValid (Unix t) ?c = {}"
    by (simp add: claimsValid_issued userClaims_fields)
  then have "CurrentJWT W key t
           \<lparr>Authorization = ''Bearer '' @ fst (generateUserToken W cfg key now groups username admin),
            Host = h, Body = b\<rparr> = Return (Some ?c, None)"
    unfolding generateUserToken_def by (simp add: CurrentJWT_issued [OF enc dec hdr] del: append.simps)
  moreover have "snd (generateUserToken W cfg key now groups username admin) = None"
    by (simp add: generateUserToken_def SignedString_ok [OF enc])
  ultimately show ?thesis
    by (simp add: userClaims_fields)
qed


theorem issue_verify_round_trip_witness:
  "marshalClaims sample (userClaims sample (sampleConfig ''4h'') sampleNow [''grp-ns-dev'', ''grp-admin''] ''alice'' True)
      = Inr (snd (recordedClaims ! 0))
   \<and> unmarshalClaims sample (snd (recordedClaims ! 0))
      = Some (userClaims sample (sampleConfig ''4h'') sampleNow [''grp-ns-dev'', ''grp-admin''] ''alice'' True)
   \<and> unmarshalHeader sample headerJSON = Some (Some ''HS512'')
   \<and> Unix (sampleNow + 60000000000)
        \<le> Unix (sampleNow + fst (ParseDuration sample (TokenLifeTime (sampleConfig ''4h''))))
   \<and> (\<exists>claims.
         CurrentJWT sample ''k3y'' (sampleNow + 60000000000)
           (request (''Bearer '' @ fst (generateUserToken sample (sampleConfig ''4h'') ''k3y'' sampleNow
                                        [''grp-ns-dev'', ''grp-admin''] ''alice'' True)))
           = Return (Some claims, None)
         \<and> User claims = ''alice'' \<and> AdminAccess claims = True
         \<and> set (Auths claims) = {(''ns-dev'', ''write'')})"
proof -
  have live: "Unix (sampleNow + 60000000000)
        \<le> Unix (sampleNow + fst (ParseDuration sample (TokenLifeTime (sampleConfig ''4h''))))"
    by (simp add: Unix_def sampleNow_def sample_def sampleConfig_def)
  have g: "GetUserNamespaces sample [''grp-ns-dev'', ''grp-admin''] = [(''ns-dev'', ''write'')]"
    by (simp add: sample_def)
  note h = sample_codec(1,2,5) [folded userClaims_alice [of "[''grp-ns-dev'', ''grp-admin'']"]]
  from issue_verify_round_trip [OF h live, of "''k3y''" "''host:6443''" "[]"] h live g
  show ?thesis by (simp add: request_def)
qed

text \<open>
  C3. The claim says that verification fails at any instant after the instant of issuance
  plus the lifetime. A token issued half a second after \<open>sampleNow\<close> with the lifetime
  \<open>2s\<close> is still accepted 2.7 seconds after \<open>sampleNow\<close>, 0.2 seconds after its lifetime
  has passed: the expiry is kept in whole seconds.
\<close>

theorem expiry_same_second_counterexample:
  "sampleNow + 500000000 + fst (ParseDuration sample (TokenLifeTime (sampleConfig ''2s'')))
      < sampleNow + 2700000000
   \<and> CurrentJWT sample ''k3y'' (sampleNow + 2700000000)
        (request (''Bearer '' @ fst (generateUserToken sample (sampleConfig ''2s'') ''k3y''
                    (sampleNow + 500000000) [''grp-ns-dev'', ''grp-admin''] ''alice'' True)))
      = Return (Some (aliceClaims 1000000002), None)"
proof -
  have "claimsValid (Unix (sampleNow + 2700000000)) (aliceClaims 1000000002) = {}"
    by (simp add: claimsValid_def aliceClaims_def Unix_def sampleNow_def)
  then have "CurrentJWT sample ''k3y'' (sampleNow + 2700000000)
        (request (''Bearer '' @ fst (generateUserToken sample (sampleConfig ''2s'') ''k3y''
                    (sampleNow + 500000000) [''grp-ns-dev'', ''grp-admin''] ''alice'' True)))
      = Return (Some (aliceClaims 1000000002), None)"
    unfolding generateUserToken_def userClaims_alice_2s request_def
      CurrentJWT_issued [OF sample_codec(3,4,5)]
    by simp
  moreover have "sampleNow + 500000000 + fst (ParseDuration sample (TokenLifeTime (sampleConfig ''2s'')))
      < sampleNow + 2700000000"
    by (simp add: sample_def sampleConfig_def)
  ultimately show ?thesis by blast
qed


text \<open>
  C3, as the code has it. A token is accepted at any instant up to the instant of issuance
  plus the lifetime, and at any later instant of the same second; it is also accepted at
  any instant when the second of its expiry is 0, which the library reads as no expiry.
  At any instant of a later second it is rejected with the error whose only flag is
  \<open>Expired\<close>.
\<close>

theorem expiry_in_whole_seconds:
  assumes enc: "marshalClaims W (userClaims W cfg now groups username admin) = Inr js"
    and dec: "unmarshalClaims W js = Some (userClaims W cfg now groups username admin)"
    and hdr: "unmarshalHeader W headerJSON = Some (Some ''HS512'')"
  shows "(t \<le> now + fst (ParseDuration W (TokenLifeTime cfg))
          \<or> Unix t \<le> Unix (now + fst (ParseDuration W (TokenLifeTime cfg)))
          \<or> Unix (now + fst (ParseDuration W (TokenLifeTime cfg))) = 0
        \<longrightarrow> CurrentJWT W key t
              \<lparr>Authorization = ''Bearer '' @ fst (generateUserToken W cfg key now groups username admin),
               Host = h, Body = b\<rparr>
            = Return (Some (userClaims W cfg now groups username admin), None))
    \<and> (Unix (now + fst (ParseDuration W (TokenLifeTime cfg))) < Unix t
          \<and> Unix (now + fst (ParseDuration W (TokenLifeTime cfg))) \<noteq> 0
        \<longrightarrow> CurrentJWT W key t
              \<lparr>Authorization = ''Bearer '' @ fst (generateUserToken W cfg key now groups username admin),
               Host = h, Body = b\<rparr>
            = Return (None, Some (ValidationError {Expired})))"
proof -
  let ?c = "userClaims W cfg now groups username admin"
  let ?exp = "Unix (now + fst (ParseDuration W (TokenLifeTime cfg)))"
  have cur: "CurrentJWT W key t
              \<lparr>Authorization = ''Bearer '' @ fst (generateUserToken W cfg key now groups username admin),
               Host = h, Body = b\<rparr>
      = (if ?exp = 0 \<or> Unix t \<le> ?exp then Return (Some ?c, None)
         else Return (None, Some (ValidationError {Expired})))"
    unfolding generateUserToken_def CurrentJWT_issued [OF enc dec hdr]
    by (simp add: claimsValid_issued userClaims_fields)
  have "t \<le> now + fst (ParseDuration W (TokenLifeTime cfg)) \<Longrightarrow> Unix t \<le> ?exp"
    by (rule Unix_mono)
  then show ?thesis
    unfolding cur by auto
qed


theorem expiry_in_whole_seconds_witness:
  "marshalClaims sample (userClaims sample (sampleConfig ''2s'') (sampleNow + 500000000)
       [''grp-ns-dev'', ''grp-admin''] ''alice'' True) = Inr (snd (recordedClaims ! 1))
   \<and> unmarshalClaims sample (snd (recordedClaims ! 1))
      = Some (userClaims sample (sampleConfig ''2s'') (sampleNow + 500000000)
               [''grp-ns-dev'', ''grp-admin''] ''alice'' True)
   \<and> unmarshalHeader sample headerJSON = Some (Some ''HS512'')
   \<and> sampleNow + 1000000000
       \<le> sampleNow + 500000000 + fst (ParseDuration sample (TokenLifeTime (sampleConfig ''2s'')))
   \<and> CurrentJWT sample ''k3y'' (sampleNow + 1000000000)
        (request (''Bearer '' @ fst (generateUserToken sample (sampleConfig ''2s'') ''k3y''
                    (sampleNow + 500000000) [''grp-ns-dev'', ''grp-admin''] ''alice'' True)))
      = Return (Some (aliceClaims 1000000002), None)
   \<and> Unix (sampleNow + 500000000 + fst (ParseDuration sample (TokenLifeTime (sampleConfig ''2s''))))
       < Unix (sampleNow + 3500000000)
   \<and> Unix (sampleNow + 500000000 + fst (ParseDuration sample (TokenLifeTime (sampleConfig ''2s'')))) \<noteq> 0
   \<and> CurrentJWT sample ''k3y'' (sampleNow + 3500000000)
        (request (''Bearer '' @ fst (generateUserToken sample (sampleConfig ''2s'') ''k3y''
                    (sampleNow + 500000000) [''grp-ns-dev'', ''grp-admin''] ''alice'' True)))
      = Return (None, Some (ValidationError {Expired}))"
proof -
  note h = sample_codec(3,4,5) [folded userClaims_alice_2s [of "[''grp-ns-dev'', ''grp-admin'']"]]
  have d: "fst (ParseDuration sample (TokenLifeTime (sampleConfig ''2s''))) = 2000000000"
    by (simp add: sample_def sampleConfig_def)
  have t: "sampleNow + 1000000000 \<le> sampleNow + 500000000 + 2000000000"
    "Unix (sampleNow + 500000000 + 2000000000) < Unix (sampleNow + 3500000000)"
    "Unix (sampleNow + 500000000 + 2000000000) \<noteq> 0"
    by (simp_all add: Unix_def sampleNow_def)
  from expiry_in_whole_seconds [OF h, of "sampleNow + 1000000000" "''k3y''" "''host:6443''" "[]"]
    expiry_in_whole_seconds [OF h, of "sampleNow + 3500000000" "''k3y''" "''host:6443''" "[]"]
    h t
  show ?thesis
    by (simp add: d request_def userClaims_alice_2s)
qed





end
